theory Spec2Isabelle
  imports Complex_Main
begin

section \<open>The image preview of vc-image: data model\<close>

text \<open>
  The theory embeds the setup function of \<^verbatim>\<open>components/vc-image/src/Preview.tsx\<close>.
  Every reactive cell of the component is a field of the record \<open>preview_state\<close>, every
  handler is a function from states to states, and what a handler reads from its
  surroundings (the props, the DOM, the event object) is an argument.

  Numbers. A JavaScript number is an IEEE double. Scales, coordinates and sizes are
  modelled as \<open>real\<close>: the arithmetic of the model is exact, and \<open>NaN\<close> and the
  infinities do not exist in it (in particular a division by zero, which the source
  answers with an infinity, is outside the model; the theorems that depend on a quotient
  assume a divisor different from zero). The rotation angle and the flip signs only ever
  hold small integers and are modelled as \<open>int\<close>.
\<close>

record point =
  px :: real
  py :: real

text \<open>\<^verbatim>\<open>const initialPosition = { x: 0, y: 0 }\<close>\<close>

definition initialPosition :: point where
  "initialPosition = \<lparr>px = 0, py = 0\<rparr>"

text \<open>
  The props the handlers read: \<^verbatim>\<open>props.visible\<close>, and \<^verbatim>\<open>minScale\<close> and
  \<^verbatim>\<open>maxScale\<close>, which may be left out by the caller.
\<close>

record props =
  visible :: bool
  prop_minScale :: "real option"
  prop_maxScale :: "real option"

text \<open>\<^verbatim>\<open>const { minScale = 1, maxScale = 50 } = reactive(props)\<close>\<close>

definition minScale :: "props \<Rightarrow> real" where
  "minScale P = (case prop_minScale P of None \<Rightarrow> 1 | Some m \<Rightarrow> m)"

definition maxScale :: "props \<Rightarrow> real" where
  "maxScale P = (case prop_maxScale P of None \<Rightarrow> 50 | Some m \<Rightarrow> m)"

text \<open>The four layout properties that \<^verbatim>\<open>dispatchZoomChange\<close> reads from the image element.\<close>

record img_element =
  offsetWidth :: real
  offsetHeight :: real
  offsetLeft :: real
  offsetTop :: real

text \<open>
  What the handlers read from the browser when they run: \<^verbatim>\<open>imgRef.value\<close> (absent
  while the image element is not mounted), the size of the window, and the results of the
  two helpers \<^verbatim>\<open>getOffset\<close> and \<^verbatim>\<open>getFixScaleEleTransPosition\<close>, whose code is
  not part of the file and which are therefore parameters of the model.
\<close>

record dom =
  imgRef :: "img_element option"
  innerWidth :: real
  innerHeight :: real
  getOffset :: point
  getFixScaleEleTransPosition :: "real \<Rightarrow> real \<Rightarrow> real \<Rightarrow> real \<Rightarrow> point option"

record origin_position =
  originX :: real
  originY :: real
  deltaX :: real
  deltaY :: real

record mouse_event =
  button :: int
  pageX :: real
  pageY :: real

text \<open>
  The state of one preview. \<open>position\<close> and \<open>pending\<close> are the two halves of the store
  returned by \<^verbatim>\<open>useFrameSetState\<close>; \<open>previewUrls\<close>, \<open>current\<close> and
  \<open>isPreviewGroup\<close> are the cells of the injected group context (an ordered map from
  keys to URLs, kept as an association list, and the current key, which is
  \<^verbatim>\<open>undefined\<close> when \<open>None\<close>).
\<close>

record preview_state =
  scale :: real
  rotateDeg :: int
  flip_x :: int
  flip_y :: int
  position :: point
  pending :: "point option"
  mousePosition :: point
  originPositionRef :: origin_position
  isMoving :: bool
  lastWheelZoomDirection :: real
  lastZoomPosition :: point
  hasWheelZoomed :: bool
  previewUrls :: "(nat \<times> string) list"
  current :: "nat option"
  isPreviewGroup :: bool

text \<open>The values the cells are created with in \<^verbatim>\<open>setup\<close>, for a given group context.\<close>

definition initialState :: "(nat \<times> string) list \<Rightarrow> nat option \<Rightarrow> bool \<Rightarrow> preview_state" where
  "initialState urls cur grp =
     \<lparr>scale = 1, rotateDeg = 0, flip_x = 1, flip_y = 1,
      position = initialPosition, pending = None,
      mousePosition = \<lparr>px = 0, py = 0\<rparr>,
      originPositionRef = \<lparr>originX = 0, originY = 0, deltaX = 0, deltaY = 0\<rparr>,
      isMoving = False,
      lastWheelZoomDirection = 0,
      lastZoomPosition = \<lparr>px = 0, py = 0\<rparr>,
      hasWheelZoomed = False,
      previewUrls = urls, current = cur, isPreviewGroup = grp\<rparr>"

section \<open>The batched position store\<close>

text \<open>
  Modelled from the spec: the hook \<^verbatim>\<open>useFrameSetState\<close> (hooks/useFrameSetState.ts),
  which the file imports and whose code is missing. The specification gives its contract:
  \<open>set\<close> schedules the new position to become the visible one; when it is called several
  times before the next rendering tick only the last value is committed; \<open>get\<close> returns
  the last committed, not the pending, value until the tick flushes.

  \<open>position\<close> is the committed value, the one the handlers read as
  \<^verbatim>\<open>position.x\<close> and \<^verbatim>\<open>position.y\<close>; \<open>pending\<close> is the value scheduled for the
  next tick, if any.
\<close>

definition setPosition :: "point \<Rightarrow> preview_state \<Rightarrow> preview_state" where
  "setPosition p s = s\<lparr>pending := Some p\<rparr>"

definition flushFrame :: "preview_state \<Rightarrow> preview_state" where
  "flushFrame s =
     (case pending s of
        None \<Rightarrow> s
      | Some p \<Rightarrow> s\<lparr>position := p, pending := None\<rparr>)"

section \<open>Close, zoom, rotate, flip\<close>

definition onAfterClose :: "preview_state \<Rightarrow> preview_state" where
  "onAfterClose s =
     (setPosition initialPosition
        (s\<lparr>scale := 1, rotateDeg := 0, flip_x := 1, flip_y := 1\<rparr>))
       \<lparr>hasWheelZoomed := False, lastZoomPosition := \<lparr>px = 0, py = 0\<rparr>\<rparr>"

text \<open>The operator \<^verbatim>\<open>??\<close>: the left operand unless it is \<^verbatim>\<open>undefined\<close>.\<close>

definition nullish :: "'a option \<Rightarrow> 'a \<Rightarrow> 'a" where
  "nullish v d = (case v of Some c \<Rightarrow> c | None \<Rightarrow> d)"

text \<open>
  \<^verbatim>\<open>dispatchZoomChange(ratio, isWheel, centerX?, centerY?)\<close>. The two branches of the
  clamp set \<^verbatim>\<open>newScale\<close> and \<^verbatim>\<open>newRatio\<close> together; \<open>zoomScale\<close> and
  \<open>zoomRatio\<close> are these two variables after the \<^verbatim>\<open>if\<close>.
\<close>

definition zoomScale :: "props \<Rightarrow> real \<Rightarrow> real \<Rightarrow> real" where
  "zoomScale P sc ratio =
     (if sc * ratio > maxScale P then maxScale P
      else if sc * ratio < minScale P then minScale P
      else sc * ratio)"

definition zoomRatio :: "props \<Rightarrow> real \<Rightarrow> real \<Rightarrow> real" where
  "zoomRatio P sc ratio =
     (if sc * ratio > maxScale P then maxScale P / sc
      else if sc * ratio < minScale P then minScale P / sc
      else ratio)"

definition dispatchZoomChange ::
  "props \<Rightarrow> dom \<Rightarrow> real \<Rightarrow> bool \<Rightarrow> real option \<Rightarrow> real option \<Rightarrow> preview_state \<Rightarrow> preview_state"
where
  "dispatchZoomChange P D ratio isWheel centerX centerY s =
     (case imgRef D of
        None \<Rightarrow> s
      | Some imgElement \<Rightarrow>
          (let newScale = zoomScale P (scale s) ratio;
               newRatio = zoomRatio P (scale s) ratio;
               mergedCenterX = nullish centerX (innerWidth D / 2);
               mergedCenterY = nullish centerY (innerHeight D / 2);
               diffRatio = newRatio - 1;
               diffImgX = diffRatio * offsetWidth imgElement * 0.5;
               diffImgY = diffRatio * offsetHeight imgElement * 0.5;
               diffOffsetLeft =
                 diffRatio * (mergedCenterX - px (position s) - offsetLeft imgElement);
               diffOffsetTop =
                 diffRatio * (mergedCenterY - py (position s) - offsetTop imgElement);
               newX = px (position s) - (diffOffsetLeft - diffImgX);
               newY = py (position s) - (diffOffsetTop - diffImgY);
               centred =
                 (ratio < 1 \<and> newScale = 1 \<and>
                  offsetWidth imgElement * newScale \<le> innerWidth D \<and>
                  offsetHeight imgElement * newScale \<le> innerHeight D);
               s1 = (if centred \<and> \<not> isWheel
                     then s\<lparr>hasWheelZoomed := False, lastZoomPosition := \<lparr>px = 0, py = 0\<rparr>\<rparr>
                     else s)
           in setPosition
                \<lparr>px = (if centred then 0 else newX), py = (if centred then 0 else newY)\<rparr>
                (s1\<lparr>scale := newScale\<rparr>)))"

definition onZoomIn :: "props \<Rightarrow> dom \<Rightarrow> bool \<Rightarrow> preview_state \<Rightarrow> preview_state" where
  "onZoomIn P D isWheel s =
     (if scale s \<ge> maxScale P then s
      else if isWheel then
        (let s1 = dispatchZoomChange P D 1.5 True
                    (Some (px (mousePosition s))) (Some (py (mousePosition s))) s
         in s1\<lparr>lastZoomPosition := \<lparr>px = px (mousePosition s1), py = py (mousePosition s1)\<rparr>,
               hasWheelZoomed := True\<rparr>)
      else if hasWheelZoomed s then
        dispatchZoomChange P D 2 False
          (Some (px (lastZoomPosition s))) (Some (py (lastZoomPosition s))) s
      else dispatchZoomChange P D 2 False None None s)"

definition onZoomOut :: "props \<Rightarrow> dom \<Rightarrow> bool \<Rightarrow> preview_state \<Rightarrow> preview_state" where
  "onZoomOut P D isWheel s =
     (if scale s \<le> minScale P then
        s\<lparr>hasWheelZoomed := False, lastZoomPosition := \<lparr>px = 0, py = 0\<rparr>\<rparr>
      else if isWheel then
        (let s1 = dispatchZoomChange P D 0.667 True
                    (Some (px (mousePosition s))) (Some (py (mousePosition s))) s
         in s1\<lparr>lastZoomPosition := \<lparr>px = px (mousePosition s1), py = py (mousePosition s1)\<rparr>,
               hasWheelZoomed := True\<rparr>)
      else if hasWheelZoomed s then
        dispatchZoomChange P D 0.5 False
          (Some (px (lastZoomPosition s))) (Some (py (lastZoomPosition s))) s
      else dispatchZoomChange P D 0.5 False None None s)"

definition onRotateRight :: "preview_state \<Rightarrow> preview_state" where
  "onRotateRight s = s\<lparr>rotateDeg := rotateDeg s + 90\<rparr>"

definition onRotateLeft :: "preview_state \<Rightarrow> preview_state" where
  "onRotateLeft s = s\<lparr>rotateDeg := rotateDeg s - 90\<rparr>"

definition onFlipX :: "preview_state \<Rightarrow> preview_state" where
  "onFlipX s = s\<lparr>flip_x := - flip_x s\<rparr>"

definition onFlipY :: "preview_state \<Rightarrow> preview_state" where
  "onFlipY s = s\<lparr>flip_y := - flip_y s\<rparr>"

section \<open>Group navigation\<close>

text \<open>\<^verbatim>\<open>Array.prototype.indexOf\<close>: the first index of the value, \<open>-1\<close> when it is absent.\<close>

fun indexOf :: "'a list \<Rightarrow> 'a \<Rightarrow> int" where
  "indexOf [] v = - 1"
| "indexOf (a # as) v =
     (if a = v then 0
      else (let r = indexOf as v in if r < 0 then - 1 else r + 1))"

text \<open>An array read \<^verbatim>\<open>xs[i]\<close>: \<^verbatim>\<open>undefined\<close> (here \<open>None\<close>) outside the array.\<close>

definition at_index :: "'a list \<Rightarrow> int \<Rightarrow> 'a option" where
  "at_index xs i = (if 0 \<le> i \<and> i < int (length xs) then Some (xs ! nat i) else None)"

definition previewGroupCount :: "preview_state \<Rightarrow> int" where
  "previewGroupCount s = int (length (previewUrls s))"

definition previewUrlsKeys :: "preview_state \<Rightarrow> nat list" where
  "previewUrlsKeys s = map fst (previewUrls s)"

definition currentPreviewIndex :: "preview_state \<Rightarrow> int" where
  "currentPreviewIndex s =
     (case current s of None \<Rightarrow> - 1 | Some k \<Rightarrow> indexOf (previewUrlsKeys s) k)"

definition showLeftOrRightSwitches :: "preview_state \<Rightarrow> bool" where
  "showLeftOrRightSwitches s \<longleftrightarrow> isPreviewGroup s \<and> previewGroupCount s > 1"

text \<open>
  Modelled from the spec: \<^verbatim>\<open>setCurrent\<close>, the setter of the group context
  (PreviewGroup.tsx, missing), which makes the given key the current one.
\<close>

definition setCurrent :: "nat option \<Rightarrow> preview_state \<Rightarrow> preview_state" where
  "setCurrent k s = s\<lparr>current := k\<rparr>"

definition onSwitchLeft :: "preview_state \<Rightarrow> preview_state" where
  "onSwitchLeft s =
     (if currentPreviewIndex s > 0
      then setCurrent (at_index (previewUrlsKeys s) (currentPreviewIndex s - 1)) s
      else s)"

definition onSwitchRight :: "preview_state \<Rightarrow> preview_state" where
  "onSwitchRight s =
     (if currentPreviewIndex s < previewGroupCount s - 1
      then setCurrent (at_index (previewUrlsKeys s) (currentPreviewIndex s + 1)) s
      else s)"

text \<open>\<^verbatim>\<open>KeyCode.LEFT\<close> and \<^verbatim>\<open>KeyCode.RIGHT\<close> of \<^verbatim>\<open>_util/KeyCode\<close>.\<close>

definition KeyCode_LEFT :: nat where
  "KeyCode_LEFT = 37"

definition KeyCode_RIGHT :: nat where
  "KeyCode_RIGHT = 39"

definition onKeyDown :: "props \<Rightarrow> nat \<Rightarrow> preview_state \<Rightarrow> preview_state" where
  "onKeyDown P keyCode s =
     (if \<not> visible P \<or> \<not> showLeftOrRightSwitches s then s
      else if keyCode = KeyCode_LEFT then
        (if currentPreviewIndex s > 0
         then setCurrent (at_index (previewUrlsKeys s) (currentPreviewIndex s - 1)) s
         else s)
      else if keyCode = KeyCode_RIGHT then
        (if currentPreviewIndex s < previewGroupCount s - 1
         then setCurrent (at_index (previewUrlsKeys s) (currentPreviewIndex s + 1)) s
         else s)
      else s)"

section \<open>Pointer, wheel and double click\<close>

datatype error = TypeError

text \<open>
  \<^verbatim>\<open>onMouseUp\<close> reads \<^verbatim>\<open>imgRef.value.offsetWidth\<close> without a guard: with no image
  element the read throws, before anything has been written.
  \<^verbatim>\<open>rotate.value % 180 !== 0\<close> holds exactly when 180 does not divide the angle.
\<close>

definition onMouseUp :: "props \<Rightarrow> dom \<Rightarrow> preview_state \<Rightarrow> error + preview_state" where
  "onMouseUp P D s =
     (if visible P \<and> isMoving s then
        (case imgRef D of
           None \<Rightarrow> Inl TypeError
         | Some img \<Rightarrow>
             (let width = offsetWidth img * scale s;
                  height = offsetHeight img * scale s;
                  left = px (getOffset D);
                  top = py (getOffset D);
                  isRotate = (rotateDeg s mod 180 \<noteq> 0);
                  s1 = s\<lparr>isMoving := False\<rparr>
              in case getFixScaleEleTransPosition D
                        (if isRotate then height else width)
                        (if isRotate then width else height) left top of
                   None \<Rightarrow> Inr s1
                 | Some fixState \<Rightarrow> Inr (setPosition fixState s1)))
      else Inr s)"

definition onMouseDown :: "mouse_event \<Rightarrow> preview_state \<Rightarrow> preview_state" where
  "onMouseDown event s =
     (if button event \<noteq> 0 then s
      else s\<lparr>originPositionRef :=
                \<lparr>originX = px (position s), originY = py (position s),
                 deltaX = pageX event - px (position s),
                 deltaY = pageY event - py (position s)\<rparr>,
              isMoving := True\<rparr>)"

definition updateMousePosition :: "mouse_event \<Rightarrow> preview_state \<Rightarrow> preview_state" where
  "updateMousePosition e s = s\<lparr>mousePosition := \<lparr>px = pageX e, py = pageY e\<rparr>\<rparr>"

definition onMouseMove :: "props \<Rightarrow> mouse_event \<Rightarrow> preview_state \<Rightarrow> preview_state" where
  "onMouseMove P event s =
     (let s1 = updateMousePosition event s
      in if visible P \<and> isMoving s1
         then setPosition
                \<lparr>px = pageX event - deltaX (originPositionRef s1),
                 py = pageY event - deltaY (originPositionRef s1)\<rparr> s1
         else s1)"

text \<open>
  \<^verbatim>\<open>onWheelMove\<close> stores the wheel delta; the watcher registered on
  \<^verbatim>\<open>lastWheelZoomDirection\<close> in \<^verbatim>\<open>onMounted\<close> then zooms. \<open>onWheelMove\<close> is the
  handler followed by the run of the watcher it triggers.
\<close>

definition onWheelMove :: "props \<Rightarrow> dom \<Rightarrow> real \<Rightarrow> preview_state \<Rightarrow> preview_state" where
  "onWheelMove P D wheelDirection s =
     (if \<not> visible P then s
      else (let s1 = s\<lparr>lastWheelZoomDirection := wheelDirection\<rparr>
            in if lastWheelZoomDirection s1 > 0 then onZoomOut P D True s1
               else if lastWheelZoomDirection s1 < 0 then onZoomIn P D True s1
               else s1))"

definition onDoubleClick :: "props \<Rightarrow> preview_state \<Rightarrow> preview_state" where
  "onDoubleClick P s =
     (if visible P then
        (let s1 = (if scale s \<noteq> 1 then s\<lparr>scale := 1\<rparr> else s)
         in if px (position s1) \<noteq> px initialPosition \<or> py (position s1) \<noteq> py initialPosition
            then setPosition initialPosition s1
            else s1)
      else s)"

section \<open>Events and runs\<close>

text \<open>
  One constructor for each handler of the component, and \<open>Frame\<close> for the rendering
  tick of the position store. An input is an event together with the props and the DOM
  at the moment it is handled. A handler that throws leaves the state as it was.
\<close>

datatype event =
    AfterClose
  | ZoomIn bool
  | ZoomOut bool
  | RotateRight
  | RotateLeft
  | FlipX
  | FlipY
  | SwitchLeft
  | SwitchRight
  | MouseUp
  | MouseDown mouse_event
  | MouseMove mouse_event
  | WheelMove real
  | KeyDown nat
  | DoubleClick
  | Frame

fun handle :: "props \<Rightarrow> dom \<Rightarrow> event \<Rightarrow> preview_state \<Rightarrow> error + preview_state" where
  "handle P D AfterClose s = Inr (onAfterClose s)"
| "handle P D (ZoomIn w) s = Inr (onZoomIn P D w s)"
| "handle P D (ZoomOut w) s = Inr (onZoomOut P D w s)"
| "handle P D RotateRight s = Inr (onRotateRight s)"
| "handle P D RotateLeft s = Inr (onRotateLeft s)"
| "handle P D FlipX s = Inr (onFlipX s)"
| "handle P D FlipY s = Inr (onFlipY s)"
| "handle P D SwitchLeft s = Inr (onSwitchLeft s)"
| "handle P D SwitchRight s = Inr (onSwitchRight s)"
| "handle P D MouseUp s = onMouseUp P D s"
| "handle P D (MouseDown e) s = Inr (onMouseDown e s)"
| "handle P D (MouseMove e) s = Inr (onMouseMove P e s)"
| "handle P D (WheelMove d) s = Inr (onWheelMove P D d s)"
| "handle P D (KeyDown k) s = Inr (onKeyDown P k s)"
| "handle P D DoubleClick s = Inr (onDoubleClick P s)"
| "handle P D Frame s = Inr (flushFrame s)"

definition step :: "props \<times> dom \<times> event \<Rightarrow> preview_state \<Rightarrow> preview_state" where
  "step i s =
     (case i of (P, D, e) \<Rightarrow>
        (case handle P D e s of Inl err \<Rightarrow> s | Inr s' \<Rightarrow> s'))"

fun run :: "(props \<times> dom \<times> event) list \<Rightarrow> preview_state \<Rightarrow> preview_state" where
  "run [] s = s"
| "run (i # is) s = run is (step i s)"

text \<open>
  \<open>same_frame t s\<close>: the rotation, the flip signs and the cells of the group context
  are the same in \<open>t\<close> as in \<open>s\<close>. The zoom, pointer and wheel handlers and the tick of
  the store all relate their result to their argument in this way.
\<close>

definition same_frame :: "preview_state \<Rightarrow> preview_state \<Rightarrow> bool" where
  "same_frame t s \<longleftrightarrow>
     rotateDeg t = rotateDeg s \<and> flip_x t = flip_x s \<and> flip_y t = flip_y s \<and>
     previewUrls t = previewUrls s \<and> current t = current s \<and>
     isPreviewGroup t = isPreviewGroup s"

section \<open>The specification's formulas\<close>

text \<open>
  The two formulas the specification states the zoom with, written from its words and
  compared with the code below: the clamp of a value to an interval, and the coordinate
  \<open>old - (r - 1) * ((focal - old - offset) - size / 2)\<close> of the position after a zoom
  by the effective ratio \<open>r\<close>.
\<close>

definition spec_clamp :: "real \<Rightarrow> real \<Rightarrow> real \<Rightarrow> real" where
  "spec_clamp v lo hi = max lo (min v hi)"

definition spec_zoom_coordinate :: "real \<Rightarrow> real \<Rightarrow> real \<Rightarrow> real \<Rightarrow> real \<Rightarrow> real" where
  "spec_zoom_coordinate old r focal off len = old - (r - 1) * ((focal - old - off) - len / 2)"

section \<open>Concrete inputs\<close>

text \<open>
  A preview with the default scale bounds, a window of 1000 by 800 pixels, and an image
  of 400 by 300 pixels laid out at (300, 250); \<open>domUnmounted\<close> is the same window
  before the image element exists.
\<close>

definition defaultProps :: props where
  "defaultProps = \<lparr>visible = True, prop_minScale = None, prop_maxScale = None\<rparr>"


definition exampleImg :: img_element where
  "exampleImg = \<lparr>offsetWidth = 400, offsetHeight = 300, offsetLeft = 300, offsetTop = 250\<rparr>"

definition exampleDom :: dom where
  "exampleDom =
     \<lparr>imgRef = Some exampleImg, innerWidth = 1000, innerHeight = 800,
      getOffset = \<lparr>px = 300, py = 250\<rparr>,
      getFixScaleEleTransPosition = (\<lambda>w h l t. None)\<rparr>"

definition domUnmounted :: dom where
  "domUnmounted = exampleDom\<lparr>imgRef := None\<rparr>"

definition freshState :: preview_state where
  "freshState = initialState [(1, ''a.png''), (2, ''b.png''), (3, ''c.png'')] (Some 2) True"

section \<open>Zoom\<close>

lemma zoomScale_clamp:
  "minScale P \<le> maxScale P \<Longrightarrow>
   zoomScale P sc ratio = spec_clamp (sc * ratio) (minScale P) (maxScale P)"
  by (simp add: zoomScale_def spec_clamp_def max_def min_def)

lemma zoomScale_range:
  "minScale P \<le> maxScale P \<Longrightarrow>
   minScale P \<le> zoomScale P sc ratio \<and> zoomScale P sc ratio \<le> maxScale P"
  by (simp add: zoomScale_def)

lemma zoomRatio_effective:
  "sc \<noteq> 0 \<Longrightarrow> zoomRatio P sc ratio = zoomScale P sc ratio / sc"
  by (simp add: zoomRatio_def zoomScale_def)

lemma dispatchZoomChange_unmounted:
  "imgRef D = None \<Longrightarrow> dispatchZoomChange P D ratio w cx cy s = s"
  by (simp add: dispatchZoomChange_def)

lemma dispatchZoomChange_scale:
  "imgRef D = Some img \<Longrightarrow>
   scale (dispatchZoomChange P D ratio w cx cy s) = zoomScale P (scale s) ratio"
  by (simp add: dispatchZoomChange_def Let_def setPosition_def)

lemma dispatchZoomChange_position:
  "imgRef D = Some img \<Longrightarrow>
   position (flushFrame (dispatchZoomChange P D ratio w cx cy s)) =
     (if ratio < 1 \<and> zoomScale P (scale s) ratio = 1 \<and>
         offsetWidth img \<le> innerWidth D \<and> offsetHeight img \<le> innerHeight D
      then \<lparr>px = 0, py = 0\<rparr>
      else \<lparr>px = spec_zoom_coordinate (px (position s)) (zoomRatio P (scale s) ratio)
                   (nullish cx (innerWidth D / 2)) (offsetLeft img) (offsetWidth img),
            py = spec_zoom_coordinate (py (position s)) (zoomRatio P (scale s) ratio)
                   (nullish cy (innerHeight D / 2)) (offsetTop img) (offsetHeight img)\<rparr>)"
  by (cases "zoomScale P (scale s) ratio = 1")
     (simp_all add: dispatchZoomChange_def Let_def setPosition_def flushFrame_def
        spec_zoom_coordinate_def right_diff_distrib)

lemma dispatchZoomChange_memory:
  "imgRef D = Some img \<Longrightarrow>
   (hasWheelZoomed (dispatchZoomChange P D ratio w cx cy s),
    lastZoomPosition (dispatchZoomChange P D ratio w cx cy s)) =
     (if ratio < 1 \<and> zoomScale P (scale s) ratio = 1 \<and>
         offsetWidth img \<le> innerWidth D \<and> offsetHeight img \<le> innerHeight D \<and> \<not> w
      then (False, \<lparr>px = 0, py = 0\<rparr>)
      else (hasWheelZoomed s, lastZoomPosition s))"
  by (cases "zoomScale P (scale s) ratio = 1")
     (simp_all add: dispatchZoomChange_def Let_def setPosition_def)

text \<open>
  C1, as the code has it. With the image element mounted, a scale different from zero and
  \<open>minScale \<le> maxScale\<close>, a zoom request leaves the scale at the clamp of
  \<open>scale * ratio\<close> to \<open>[minScale, maxScale]\<close>, hence inside the interval. The position the
  store commits at its next tick is computed, on each axis, from the effective ratio
  \<open>newScale / oldScale\<close> by the formula of the specification, with the centre of the
  window for a focal coordinate that is not given; the one exception is a request with
  \<open>ratio < 1\<close> that ends at scale 1 with the image box inside the window, where the
  position is the origin.
\<close>

theorem dispatchZoomChange_clamps_and_moves:
  "imgRef D = Some img \<Longrightarrow> scale s \<noteq> 0 \<Longrightarrow> minScale P \<le> maxScale P \<Longrightarrow>
   s' = dispatchZoomChange P D ratio isWheel centerX centerY s \<Longrightarrow>
   scale s' = spec_clamp (scale s * ratio) (minScale P) (maxScale P) \<and>
   minScale P \<le> scale s' \<and> scale s' \<le> maxScale P \<and>
   position (flushFrame s') =
     (if ratio < 1 \<and> scale s' = 1 \<and>
         offsetWidth img \<le> innerWidth D \<and> offsetHeight img \<le> innerHeight D
      then \<lparr>px = 0, py = 0\<rparr>
      else \<lparr>px = spec_zoom_coordinate (px (position s)) (scale s' / scale s)
                   (nullish centerX (innerWidth D / 2)) (offsetLeft img) (offsetWidth img),
            py = spec_zoom_coordinate (py (position s)) (scale s' / scale s)
                   (nullish centerY (innerHeight D / 2)) (offsetTop img) (offsetHeight img)\<rparr>)"
proof -
  assume img: "imgRef D = Some img" and nz: "scale s \<noteq> 0"
    and mm: "minScale P \<le> maxScale P"
    and s': "s' = dispatchZoomChange P D ratio isWheel centerX centerY s"
  have sc: "scale s' = zoomScale P (scale s) ratio"
    using img s' by (simp add: dispatchZoomChange_scale)
  have r: "zoomRatio P (scale s) ratio = scale s' / scale s"
    using nz sc by (simp add: zoomRatio_effective)
  have pos: "position (flushFrame s') =
     (if ratio < 1 \<and> scale s' = 1 \<and>
         offsetWidth img \<le> innerWidth D \<and> offsetHeight img \<le> innerHeight D
      then \<lparr>px = 0, py = 0\<rparr>
      else \<lparr>px = spec_zoom_coordinate (px (position s)) (scale s' / scale s)
                   (nullish centerX (innerWidth D / 2)) (offsetLeft img) (offsetWidth img),
            py = spec_zoom_coordinate (py (position s)) (scale s' / scale s)
                   (nullish centerY (innerHeight D / 2)) (offsetTop img) (offsetHeight img)\<rparr>)"
    using dispatchZoomChange_position [OF img, of P ratio isWheel centerX centerY s] r sc
    by (simp add: s')
  show ?thesis
    using sc pos zoomScale_clamp [OF mm] zoomScale_range [OF mm] by simp
qed

text \<open>
  The theorem at a request that is clamped: at scale 40 a zoom by 2 towards (600, 500) stops
  at \<open>maxScale = 50\<close>, and the position moves by the effective ratio \<open>5/4\<close>, not by 2.
\<close>

theorem dispatchZoomChange_clamps_and_moves_witness:
  "imgRef exampleDom = Some exampleImg \<and> scale (freshState\<lparr>scale := 40\<rparr>) \<noteq> 0 \<and>
   minScale defaultProps \<le> maxScale defaultProps \<and>
   scale (dispatchZoomChange defaultProps exampleDom 2 False (Some 600) (Some 500)
            (freshState\<lparr>scale := 40\<rparr>)) = 50 \<and>
   position (flushFrame (dispatchZoomChange defaultProps exampleDom 2 False (Some 600) (Some 500)
            (freshState\<lparr>scale := 40\<rparr>))) = \<lparr>px = - 25, py = - 25\<rparr>"
  using dispatchZoomChange_clamps_and_moves
    [where D = exampleDom and img = exampleImg and s = "freshState\<lparr>scale := 40\<rparr>"
       and P = defaultProps and ratio = 2 and isWheel = False
       and centerX = "Some 600" and centerY = "Some 500", OF _ _ _ refl]
  by (simp add: exampleDom_def exampleImg_def freshState_def initialState_def
      initialPosition_def defaultProps_def minScale_def maxScale_def spec_clamp_def
      spec_zoom_coordinate_def nullish_def)

text \<open>
  C1 as it is stated fails where the recentring applies. After one wheel zoom in the scale
  is \<open>3/2\<close>; a zoom by \<open>1/2\<close> towards (600, 500) is clamped to scale 1, the effective
  ratio is \<open>2/3\<close>, and the formula gives the abscissa \<open>100/3\<close>, while the code commits 0.
\<close>

theorem dispatchZoomChange_formula_counterexample:
  "px (position (flushFrame (dispatchZoomChange defaultProps exampleDom (1/2) False
         (Some 600) (Some 500) (freshState\<lparr>scale := 3/2\<rparr>)))) = 0 \<and>
   spec_zoom_coordinate (px (position (freshState\<lparr>scale := 3/2\<rparr>)))
      (scale (dispatchZoomChange defaultProps exampleDom (1/2) False
         (Some 600) (Some 500) (freshState\<lparr>scale := 3/2\<rparr>)) / scale (freshState\<lparr>scale := 3/2\<rparr>))
      (nullish (Some 600) (innerWidth exampleDom / 2))
      (offsetLeft exampleImg) (offsetWidth exampleImg) = 100 / 3"
  by (simp add: dispatchZoomChange_def flushFrame_def setPosition_def Let_def
      zoomScale_def zoomRatio_def exampleDom_def exampleImg_def freshState_def
      initialState_def initialPosition_def defaultProps_def minScale_def maxScale_def
      spec_zoom_coordinate_def nullish_def)

text \<open>
  C2. With the image element mounted, a zoom request with \<open>ratio < 1\<close> whose clamped new
  scale is 1, for an image whose unscaled box is no wider and no higher than the window,
  commits the position (0, 0). The request clears the wheel zoom memory (the flag and the
  stored focal point) when it does not come from the wheel, and leaves the memory as it
  was when it does.
\<close>

theorem dispatchZoomChange_recentres:
  "imgRef D = Some img \<Longrightarrow> ratio < 1 \<Longrightarrow> zoomScale P (scale s) ratio = 1 \<Longrightarrow>
   offsetWidth img \<le> innerWidth D \<Longrightarrow> offsetHeight img \<le> innerHeight D \<Longrightarrow>
   s' = dispatchZoomChange P D ratio isWheel centerX centerY s \<Longrightarrow>
   scale s' = 1 \<and>
   position (flushFrame s') = \<lparr>px = 0, py = 0\<rparr> \<and>
   (hasWheelZoomed s', lastZoomPosition s') =
     (if isWheel then (hasWheelZoomed s, lastZoomPosition s)
      else (False, \<lparr>px = 0, py = 0\<rparr>))"
  using dispatchZoomChange_scale [of D img P ratio isWheel centerX centerY s]
    dispatchZoomChange_position [of D img P ratio isWheel centerX centerY s]
    dispatchZoomChange_memory [of D img P ratio isWheel centerX centerY s]
  by simp

text \<open>
  The theorem at the button zoom out that follows a wheel zoom: from scale 2, with the
  focal point (600, 500) remembered, the image returns to the origin and the memory is
  cleared.
\<close>

theorem dispatchZoomChange_recentres_witness:
  "imgRef exampleDom = Some exampleImg \<and> (1/2 :: real) < 1 \<and>
   zoomScale defaultProps
     (scale (freshState\<lparr>scale := 2, position := \<lparr>px = 40, py = - 30\<rparr>,
        hasWheelZoomed := True, lastZoomPosition := \<lparr>px = 600, py = 500\<rparr>\<rparr>)) (1/2) = 1 \<and>
   offsetWidth exampleImg \<le> innerWidth exampleDom \<and>
   offsetHeight exampleImg \<le> innerHeight exampleDom \<and>
   position (flushFrame (dispatchZoomChange defaultProps exampleDom (1/2) False
      (Some 600) (Some 500)
      (freshState\<lparr>scale := 2, position := \<lparr>px = 40, py = - 30\<rparr>,
        hasWheelZoomed := True, lastZoomPosition := \<lparr>px = 600, py = 500\<rparr>\<rparr>)))
     = \<lparr>px = 0, py = 0\<rparr> \<and>
   hasWheelZoomed (dispatchZoomChange defaultProps exampleDom (1/2) False
      (Some 600) (Some 500)
      (freshState\<lparr>scale := 2, position := \<lparr>px = 40, py = - 30\<rparr>,
        hasWheelZoomed := True, lastZoomPosition := \<lparr>px = 600, py = 500\<rparr>\<rparr>)) = False"
  using dispatchZoomChange_recentres
    [where D = exampleDom and img = exampleImg and P = defaultProps and ratio = "1/2"
       and isWheel = False and centerX = "Some 600" and centerY = "Some 500"
       and s = "freshState\<lparr>scale := 2, position := \<lparr>px = 40, py = - 30\<rparr>,
        hasWheelZoomed := True, lastZoomPosition := \<lparr>px = 600, py = 500\<rparr>\<rparr>", OF _ _ _ _ _ refl]
  by (simp add: exampleDom_def exampleImg_def freshState_def initialState_def
      defaultProps_def minScale_def maxScale_def zoomScale_def)

text \<open>
  C3. A call of \<open>zoomOut\<close>, from the wheel or from the button, made while the scale equals
  \<open>minScale\<close> changes nothing but the wheel zoom memory: scale, position (the committed
  and the pending one), rotation and flip stay, the flag becomes false and the stored
  focal point becomes (0, 0).
\<close>

theorem onZoomOut_at_minScale:
  "scale s = minScale P \<Longrightarrow>
   onZoomOut P D isWheel s =
     s\<lparr>hasWheelZoomed := False, lastZoomPosition := \<lparr>px = 0, py = 0\<rparr>\<rparr>"
  by (simp add: onZoomOut_def)

theorem onZoomOut_at_minScale_witness:
  "scale (freshState\<lparr>hasWheelZoomed := True, lastZoomPosition := \<lparr>px = 600, py = 500\<rparr>\<rparr>)
     = minScale defaultProps \<and>
   onZoomOut defaultProps exampleDom True
     (freshState\<lparr>hasWheelZoomed := True, lastZoomPosition := \<lparr>px = 600, py = 500\<rparr>\<rparr>)
     = freshState"
  using onZoomOut_at_minScale
    [where s = "freshState\<lparr>hasWheelZoomed := True, lastZoomPosition := \<lparr>px = 600, py = 500\<rparr>\<rparr>"
       and P = defaultProps and D = exampleDom and isWheel = True]
  by (simp add: freshState_def initialState_def defaultProps_def minScale_def)

section \<open>Rotation, flip, close\<close>

lemma funpow_onRotateRight:
  "(onRotateRight ^^ n) s = s\<lparr>rotateDeg := rotateDeg s + 90 * int n\<rparr>"
  by (induction n) (simp_all add: onRotateRight_def)

lemma funpow_onRotateLeft:
  "(onRotateLeft ^^ n) s = s\<lparr>rotateDeg := rotateDeg s - 90 * int n\<rparr>"
  by (induction n) (simp_all add: onRotateLeft_def)

text \<open>
  C4, as the code has it. \<open>rotateRight\<close> adds 90 degrees to the angle and \<open>rotateLeft\<close>
  subtracts 90 degrees. The angle accumulates without wrapping around: \<open>n\<close> rotations
  move it by \<open>90 * n\<close>. Neither operation changes anything else, so scale, position and
  flip stay.
\<close>

theorem rotate_adds_and_subtracts:
  "onRotateRight s = s\<lparr>rotateDeg := rotateDeg s + 90\<rparr> \<and>
   onRotateLeft s = s\<lparr>rotateDeg := rotateDeg s - 90\<rparr> \<and>
   (onRotateRight ^^ n) s = s\<lparr>rotateDeg := rotateDeg s + 90 * int n\<rparr> \<and>
   (onRotateLeft ^^ n) s = s\<lparr>rotateDeg := rotateDeg s - 90 * int n\<rparr>"
  by (simp add: funpow_onRotateRight funpow_onRotateLeft)
     (simp add: onRotateRight_def onRotateLeft_def)

text \<open>
  C4 as it is stated has the two directions exchanged: from the angle 0, \<open>rotateLeft\<close>
  leads to \<open>-90\<close>, not to 90, and \<open>rotateRight\<close> to 90, not to \<open>-90\<close>.
\<close>

theorem rotateLeft_counterexample:
  "rotateDeg (onRotateLeft freshState) \<noteq> rotateDeg freshState + 90 \<and>
   rotateDeg (onRotateRight freshState) \<noteq> rotateDeg freshState - 90"
  by (simp add: onRotateLeft_def onRotateRight_def freshState_def initialState_def)

text \<open>
  C6. Whatever the state before, after the after-close handler and the tick of the
  position store that follows it the transform has its defaults (scale 1, rotation 0,
  both flip signs 1, position (0, 0)) and the wheel zoom memory is cleared (flag false,
  stored focal point (0, 0)); no position update is left pending and the other cells are
  as before.
\<close>

theorem onAfterClose_resets:
  "flushFrame (onAfterClose s) =
     s\<lparr>scale := 1, rotateDeg := 0, flip_x := 1, flip_y := 1,
       position := \<lparr>px = 0, py = 0\<rparr>, pending := None,
       hasWheelZoomed := False, lastZoomPosition := \<lparr>px = 0, py = 0\<rparr>\<rparr>"
  by (simp add: onAfterClose_def flushFrame_def setPosition_def initialPosition_def)

section \<open>What every handler leaves alone\<close>

lemma dispatchZoomChange_frame: "same_frame (dispatchZoomChange P D r w cx cy s) s"
  by (simp add: same_frame_def dispatchZoomChange_def Let_def setPosition_def
      split: option.splits)

lemma onZoomIn_frame: "same_frame (onZoomIn P D w s) s"
  using dispatchZoomChange_frame [of P D _ _ _ _ s]
  by (simp add: same_frame_def onZoomIn_def Let_def)

lemma onZoomOut_frame: "same_frame (onZoomOut P D w s) s"
  using dispatchZoomChange_frame [of P D _ _ _ _ s]
  by (simp add: same_frame_def onZoomOut_def Let_def)

lemma onWheelMove_frame: "same_frame (onWheelMove P D d s) s"
  using onZoomIn_frame [of P D True "s\<lparr>lastWheelZoomDirection := d\<rparr>"]
    onZoomOut_frame [of P D True "s\<lparr>lastWheelZoomDirection := d\<rparr>"]
  by (simp add: same_frame_def onWheelMove_def Let_def)

lemma onMouseUp_frame: "onMouseUp P D s = Inr t \<Longrightarrow> same_frame t s"
  by (auto simp add: same_frame_def onMouseUp_def Let_def setPosition_def
      split: option.splits if_splits)

lemma pointer_frame:
  "same_frame (onMouseDown e s) s" "same_frame (onMouseMove P e s) s"
  "same_frame (onDoubleClick P s) s" "same_frame (flushFrame s) s"
  by (simp_all add: same_frame_def onMouseDown_def onMouseMove_def updateMousePosition_def
      onDoubleClick_def flushFrame_def Let_def setPosition_def split: option.splits)

lemma onKeyDown_cases:
  "onKeyDown P k s =
     (if visible P \<and> isPreviewGroup s \<and> previewGroupCount s > 1
      then (if k = KeyCode_LEFT then onSwitchLeft s
            else if k = KeyCode_RIGHT then onSwitchRight s else s)
      else s)"
  by (simp add: onKeyDown_def onSwitchLeft_def onSwitchRight_def showLeftOrRightSwitches_def)

text \<open>
  A step either keeps the frame or is one of the eight operations that write to it.
\<close>

lemma step_cases:
  "same_frame (step i s) s \<or> step i s = onAfterClose s \<or>
   step i s = onRotateRight s \<or> step i s = onRotateLeft s \<or>
   step i s = onFlipX s \<or> step i s = onFlipY s \<or>
   step i s = onSwitchLeft s \<or> step i s = onSwitchRight s"
proof -
  obtain P D e where i: "i = (P, D, e)" by (cases i)
  have refl: "same_frame s s" by (simp add: same_frame_def)
  show ?thesis
  proof (cases e)
    case MouseUp
    then show ?thesis using i refl onMouseUp_frame [of P D s]
      by (auto simp add: step_def split: sum.splits)
  next
    case (ZoomIn w)
    then show ?thesis using i onZoomIn_frame [of P D w s] by (simp add: step_def)
  next
    case (ZoomOut w)
    then show ?thesis using i onZoomOut_frame [of P D w s] by (simp add: step_def)
  next
    case (WheelMove d)
    then show ?thesis using i onWheelMove_frame [of P D d s] by (simp add: step_def)
  next
    case (MouseDown m)
    then show ?thesis using i pointer_frame(1) [of m s] by (simp add: step_def)
  next
    case (MouseMove m)
    then show ?thesis using i pointer_frame(2) [of P m s] by (simp add: step_def)
  next
    case DoubleClick
    then show ?thesis using i pointer_frame(3) [of P s] by (simp add: step_def)
  next
    case Frame
    then show ?thesis using i pointer_frame(4) [of s] by (simp add: step_def)
  next
    case (KeyDown k)
    then show ?thesis using i refl by (simp add: step_def onKeyDown_cases)
  qed (simp_all add: i step_def)
qed

lemma switch_orientation:
  "rotateDeg (onSwitchLeft s) = rotateDeg s \<and> flip_x (onSwitchLeft s) = flip_x s \<and>
   flip_y (onSwitchLeft s) = flip_y s \<and>
   rotateDeg (onSwitchRight s) = rotateDeg s \<and> flip_x (onSwitchRight s) = flip_x s \<and>
   flip_y (onSwitchRight s) = flip_y s"
  by (simp add: onSwitchLeft_def onSwitchRight_def setCurrent_def)

lemma step_rotateDeg:
  "rotateDeg (step i s) = rotateDeg s \<or> rotateDeg (step i s) = rotateDeg s + 90 \<or>
   rotateDeg (step i s) = rotateDeg s - 90 \<or> rotateDeg (step i s) = 0"
  using step_cases [of i s]
  by (auto simp add: same_frame_def onAfterClose_def setPosition_def onRotateRight_def
      onRotateLeft_def onFlipX_def onFlipY_def switch_orientation)

lemma run_rotateDeg: "90 dvd rotateDeg s \<Longrightarrow> 90 dvd rotateDeg (run is s)"
proof (induction "is" arbitrary: s)
  case Nil
  then show ?case by simp
next
  case (Cons i "is")
  have "90 dvd rotateDeg (step i s)"
    using step_rotateDeg [of i s] Cons.prems by auto
  then show ?case using Cons.IH by simp
qed

lemma step_flip:
  "(flip_x s = 1 \<or> flip_x s = - 1) \<and> (flip_y s = 1 \<or> flip_y s = - 1) \<Longrightarrow>
   (flip_x (step i s) = 1 \<or> flip_x (step i s) = - 1) \<and>
   (flip_y (step i s) = 1 \<or> flip_y (step i s) = - 1)"
  using step_cases [of i s]
  by (auto simp add: same_frame_def onAfterClose_def setPosition_def onRotateRight_def
      onRotateLeft_def onFlipX_def onFlipY_def switch_orientation)

lemma run_flip:
  "(flip_x s = 1 \<or> flip_x s = - 1) \<and> (flip_y s = 1 \<or> flip_y s = - 1) \<Longrightarrow>
   (flip_x (run is s) = 1 \<or> flip_x (run is s) = - 1) \<and>
   (flip_y (run is s) = 1 \<or> flip_y (run is s) = - 1)"
proof (induction "is" arbitrary: s)
  case Nil
  then show ?case by simp
next
  case (Cons i "is")
  from step_flip [OF Cons.prems, of i] show ?case using Cons.IH by simp
qed

section \<open>Double click\<close>




section \<open>Zoom without an image element\<close>

text \<open>
  C8, as the code has it. While the image element is not mounted, no zoom operation
  raises an error, and none changes scale, position, rotation or flip.
  \<open>dispatchZoomChange\<close> returns at once and leaves the whole state as it was, and so do
  a \<open>zoomIn\<close> from the button, a \<open>zoomIn\<close> at a scale of \<open>maxScale\<close> or more, and a
  \<open>zoomOut\<close> from the button above \<open>minScale\<close>. The wheel zoom memory, and nothing else,
  is written in the remaining cases: a \<open>zoomIn\<close> from the wheel below \<open>maxScale\<close> and a
  \<open>zoomOut\<close> from the wheel above \<open>minScale\<close> store the pointer position and set the flag,
  and a \<open>zoomOut\<close> at a scale of \<open>minScale\<close> or less clears the memory.
\<close>

theorem zoom_unmounted:
  "imgRef D = None \<Longrightarrow>
   dispatchZoomChange P D ratio w cx cy s = s \<and>
   handle P D (ZoomIn w) s = Inr (onZoomIn P D w s) \<and>
   handle P D (ZoomOut w) s = Inr (onZoomOut P D w s) \<and>
   onZoomIn P D w s =
     (if scale s \<ge> maxScale P \<or> \<not> w then s
      else s\<lparr>lastZoomPosition := mousePosition s, hasWheelZoomed := True\<rparr>) \<and>
   onZoomOut P D w s =
     (if scale s \<le> minScale P
      then s\<lparr>hasWheelZoomed := False, lastZoomPosition := \<lparr>px = 0, py = 0\<rparr>\<rparr>
      else if w then s\<lparr>lastZoomPosition := mousePosition s, hasWheelZoomed := True\<rparr>
      else s)"
  by (simp add: dispatchZoomChange_unmounted onZoomIn_def onZoomOut_def Let_def)

text \<open>
  The theorem before the image element exists, at scale 3 with the focal point (600, 500)
  remembered: the zoom request and the two button operations return the state they were
  given.
\<close>

theorem zoom_unmounted_witness:
  "imgRef domUnmounted = None \<and>
   dispatchZoomChange defaultProps domUnmounted 2 False None None
     (freshState\<lparr>scale := 3, hasWheelZoomed := True,
        lastZoomPosition := \<lparr>px = 600, py = 500\<rparr>\<rparr>)
     = freshState\<lparr>scale := 3, hasWheelZoomed := True,
        lastZoomPosition := \<lparr>px = 600, py = 500\<rparr>\<rparr> \<and>
   onZoomIn defaultProps domUnmounted False
     (freshState\<lparr>scale := 3, hasWheelZoomed := True,
        lastZoomPosition := \<lparr>px = 600, py = 500\<rparr>\<rparr>)
     = freshState\<lparr>scale := 3, hasWheelZoomed := True,
        lastZoomPosition := \<lparr>px = 600, py = 500\<rparr>\<rparr> \<and>
   onZoomOut defaultProps domUnmounted False
     (freshState\<lparr>scale := 3, hasWheelZoomed := True,
        lastZoomPosition := \<lparr>px = 600, py = 500\<rparr>\<rparr>)
     = freshState\<lparr>scale := 3, hasWheelZoomed := True,
        lastZoomPosition := \<lparr>px = 600, py = 500\<rparr>\<rparr>"
  using zoom_unmounted
    [where D = domUnmounted and P = defaultProps and ratio = 2 and w = False
       and cx = None and cy = None
       and s = "freshState\<lparr>scale := 3, hasWheelZoomed := True,
                  lastZoomPosition := \<lparr>px = 600, py = 500\<rparr>\<rparr>"]
  by (simp add: domUnmounted_def defaultProps_def minScale_def maxScale_def
      freshState_def initialState_def)

text \<open>
  C8 as it is stated fails in each of the three cases that write the memory. With no
  image element, a wheel zoom in on the fresh state sets the flag; a wheel zoom out at
  scale 3 sets the flag; and a button zoom out at scale 1, which is \<open>minScale\<close>, clears a
  flag that was set.
\<close>

theorem zoomIn_unmounted_counterexample:
  "imgRef domUnmounted = None \<and>
   hasWheelZoomed (onZoomIn defaultProps domUnmounted True freshState)
     \<noteq> hasWheelZoomed freshState \<and>
   hasWheelZoomed (onZoomOut defaultProps domUnmounted True (freshState\<lparr>scale := 3\<rparr>))
     \<noteq> hasWheelZoomed (freshState\<lparr>scale := 3\<rparr>) \<and>
   hasWheelZoomed (onZoomOut defaultProps domUnmounted False
                     (freshState\<lparr>hasWheelZoomed := True\<rparr>))
     \<noteq> hasWheelZoomed (freshState\<lparr>hasWheelZoomed := True\<rparr>)"
  by (simp add: onZoomIn_def onZoomOut_def dispatchZoomChange_def domUnmounted_def Let_def
      freshState_def initialState_def defaultProps_def minScale_def maxScale_def)

section \<open>Invariants of rotation and flip\<close>

text \<open>
  C9. The rotation angle is a multiple of 90 in every state the preview can reach: it
  starts at 0, every step (a handler, or the tick of the store) leaves it unchanged, adds
  or subtracts exactly 90, or resets it to 0, and so after any sequence of steps from the
  initial state the angle modulo 90 is 0.
\<close>

theorem rotateDeg_multiple_of_90:
  "rotateDeg (initialState urls cur grp) = 0 \<and>
   (rotateDeg (step i s) = rotateDeg s \<or> rotateDeg (step i s) = rotateDeg s + 90 \<or>
    rotateDeg (step i s) = rotateDeg s - 90 \<or> rotateDeg (step i s) = 0) \<and>
   rotateDeg (run inputs (initialState urls cur grp)) mod 90 = 0"
proof -
  have "90 dvd rotateDeg (run inputs (initialState urls cur grp))"
    by (rule run_rotateDeg) (simp add: initialState_def)
  then show ?thesis
    using step_rotateDeg [of i s] by (simp add: initialState_def mod_eq_0_iff_dvd)
qed

text \<open>
  C10. \<open>flipX\<close> and \<open>flipY\<close> are involutions on the whole state; one application negates
  the flip sign of its own axis and changes nothing else; and in every state the preview
  can reach both flip signs are 1 or \<open>-1\<close>.
\<close>

theorem flip_involution:
  "onFlipX (onFlipX s) = s \<and> onFlipY (onFlipY s) = s \<and>
   onFlipX s = s\<lparr>flip_x := - flip_x s\<rparr> \<and> onFlipY s = s\<lparr>flip_y := - flip_y s\<rparr> \<and>
   (flip_x (run inputs (initialState urls cur grp)) = 1 \<or>
    flip_x (run inputs (initialState urls cur grp)) = - 1) \<and>
   (flip_y (run inputs (initialState urls cur grp)) = 1 \<or>
    flip_y (run inputs (initialState urls cur grp)) = - 1)"
proof -
  have "(flip_x (run inputs (initialState urls cur grp)) = 1 \<or>
         flip_x (run inputs (initialState urls cur grp)) = - 1) \<and>
        (flip_y (run inputs (initialState urls cur grp)) = 1 \<or>
         flip_y (run inputs (initialState urls cur grp)) = - 1)"
    by (rule run_flip) (simp add: initialState_def)
  then show ?thesis by (simp add: onFlipX_def onFlipY_def)
qed

section \<open>The index of the current item\<close>

lemma indexOf_lower: "- 1 \<le> indexOf xs v"
  by (induction xs) (simp_all add: Let_def)

lemma indexOf_upper: "indexOf xs v < int (length xs)"
  by (induction xs) (simp_all add: Let_def)

lemma indexOf_member: "0 \<le> indexOf xs v \<longleftrightarrow> v \<in> set xs"
  by (induction xs) (auto simp add: Let_def)

lemma indexOf_nth: "distinct xs \<Longrightarrow> i < length xs \<Longrightarrow> indexOf xs (xs ! i) = int i"
proof (induction xs arbitrary: i)
  case Nil
  then show ?case by simp
next
  case (Cons a as)
  show ?case
  proof (cases i)
    case 0
    then show ?thesis by simp
  next
    case (Suc j)
    with Cons.prems have j: "j < length as" and d: "distinct as" and na: "as ! j \<noteq> a"
      by auto
    from Cons.IH [OF d j] Suc na show ?thesis by (simp add: Let_def)
  qed
qed

lemma currentPreviewIndex_lower: "- 1 \<le> currentPreviewIndex s"
  by (simp add: currentPreviewIndex_def indexOf_lower split: option.splits)

lemma currentPreviewIndex_upper: "currentPreviewIndex s \<le> previewGroupCount s - 1"
  using indexOf_upper [of "previewUrlsKeys s"]
  by (auto simp add: currentPreviewIndex_def previewGroupCount_def previewUrlsKeys_def
      split: option.splits)

lemma currentPreviewIndex_cong:
  "previewUrls t = previewUrls s \<Longrightarrow> current t = current s \<Longrightarrow>
   currentPreviewIndex t = currentPreviewIndex s"
  by (simp add: currentPreviewIndex_def previewUrlsKeys_def split: option.splits)

lemma setCurrent_index:
  "distinct (previewUrlsKeys s) \<Longrightarrow> 0 \<le> i \<Longrightarrow> i < previewGroupCount s \<Longrightarrow>
   currentPreviewIndex (setCurrent (at_index (previewUrlsKeys s) i) s) = i"
  using indexOf_nth [of "previewUrlsKeys s" "nat i"]
  by (simp add: currentPreviewIndex_def setCurrent_def at_index_def previewGroupCount_def
      previewUrlsKeys_def)

lemma setCurrent_index_nonneg:
  "0 \<le> i \<Longrightarrow> i < previewGroupCount s \<Longrightarrow>
   0 \<le> currentPreviewIndex (setCurrent (at_index (previewUrlsKeys s) i) s)"
  by (simp add: currentPreviewIndex_def setCurrent_def at_index_def previewGroupCount_def
      previewUrlsKeys_def indexOf_member)

lemma onSwitchLeft_index:
  "distinct (previewUrlsKeys s) \<Longrightarrow>
   currentPreviewIndex (onSwitchLeft s) =
     (if currentPreviewIndex s > 0 then currentPreviewIndex s - 1
      else currentPreviewIndex s)"
  using currentPreviewIndex_upper [of s] by (simp add: onSwitchLeft_def setCurrent_index)

lemma onSwitchRight_index:
  "distinct (previewUrlsKeys s) \<Longrightarrow>
   currentPreviewIndex (onSwitchRight s) =
     (if currentPreviewIndex s < previewGroupCount s - 1 then currentPreviewIndex s + 1
      else currentPreviewIndex s)"
  using currentPreviewIndex_lower [of s] by (simp add: onSwitchRight_def setCurrent_index)

lemma onSwitchLeft_nonneg:
  "0 \<le> currentPreviewIndex s \<Longrightarrow> 0 \<le> currentPreviewIndex (onSwitchLeft s)"
  using currentPreviewIndex_upper [of s]
  by (simp add: onSwitchLeft_def setCurrent_index_nonneg)

lemma onSwitchRight_nonneg:
  "0 \<le> currentPreviewIndex s \<Longrightarrow> 0 \<le> currentPreviewIndex (onSwitchRight s)"
  by (simp add: onSwitchRight_def setCurrent_index_nonneg)

lemma step_previewUrls: "previewUrls (step i s) = previewUrls s"
  using step_cases [of i s]
  by (auto simp add: same_frame_def onAfterClose_def setPosition_def onRotateRight_def
      onRotateLeft_def onFlipX_def onFlipY_def onSwitchLeft_def onSwitchRight_def
      setCurrent_def)

lemma run_previewUrls: "previewUrls (run inputs s) = previewUrls s"
  by (induction inputs arbitrary: s) (simp_all add: step_previewUrls)

lemma step_index_nonneg:
  assumes "0 \<le> currentPreviewIndex s"
  shows "0 \<le> currentPreviewIndex (step i s)"
proof -
  have keep: "0 \<le> currentPreviewIndex t"
    if "previewUrls t = previewUrls s" and "current t = current s" for t
    using assms currentPreviewIndex_cong [OF that] by simp
  from step_cases [of i s] show ?thesis
  proof (elim disjE)
    assume "same_frame (step i s) s"
    then show ?thesis by (intro keep) (simp_all add: same_frame_def)
  next
    assume "step i s = onAfterClose s"
    then show ?thesis by (intro keep) (simp_all add: onAfterClose_def setPosition_def)
  next
    assume "step i s = onRotateRight s"
    then show ?thesis by (intro keep) (simp_all add: onRotateRight_def)
  next
    assume "step i s = onRotateLeft s"
    then show ?thesis by (intro keep) (simp_all add: onRotateLeft_def)
  next
    assume "step i s = onFlipX s"
    then show ?thesis by (intro keep) (simp_all add: onFlipX_def)
  next
    assume "step i s = onFlipY s"
    then show ?thesis by (intro keep) (simp_all add: onFlipY_def)
  next
    assume "step i s = onSwitchLeft s"
    then show ?thesis using onSwitchLeft_nonneg [OF assms] by simp
  next
    assume "step i s = onSwitchRight s"
    then show ?thesis using onSwitchRight_nonneg [OF assms] by simp
  qed
qed

lemma run_index_nonneg:
  "0 \<le> currentPreviewIndex s \<Longrightarrow> 0 \<le> currentPreviewIndex (run inputs s)"
  by (induction inputs arbitrary: s) (simp_all add: step_index_nonneg)

text \<open>
  C7. In a group whose keys are distinct and whose current key is one of them, the index
  of the current item stays within \<open>[0, count - 1]\<close> along every sequence of steps, the
  key presses and the clicks on the two switches among them, and the count does not
  change. A click on the left switch moves to the previous item exactly when the index
  is positive, a click on the right switch to the next item exactly when the index is
  below \<open>count - 1\<close>. A key press is handled only while the preview is visible and the
  group has more than one item; the left arrow then acts as the left switch, the right
  arrow as the right switch, and every other key changes nothing.
\<close>

theorem navigation_keeps_index:
  "distinct (previewUrlsKeys s) \<Longrightarrow> 0 \<le> currentPreviewIndex s \<Longrightarrow>
   0 \<le> currentPreviewIndex (run inputs s) \<and>
   currentPreviewIndex (run inputs s) \<le> previewGroupCount (run inputs s) - 1 \<and>
   previewGroupCount (run inputs s) = previewGroupCount s \<and>
   currentPreviewIndex (onSwitchLeft s) =
     (if currentPreviewIndex s > 0 then currentPreviewIndex s - 1
      else currentPreviewIndex s) \<and>
   currentPreviewIndex (onSwitchRight s) =
     (if currentPreviewIndex s < previewGroupCount s - 1 then currentPreviewIndex s + 1
      else currentPreviewIndex s) \<and>
   onKeyDown P k s =
     (if visible P \<and> isPreviewGroup s \<and> previewGroupCount s > 1
      then (if k = KeyCode_LEFT then onSwitchLeft s
            else if k = KeyCode_RIGHT then onSwitchRight s else s)
      else s)"
  using run_index_nonneg [of s inputs] currentPreviewIndex_upper [of "run inputs s"]
    run_previewUrls [of inputs s] onSwitchLeft_index [of s] onSwitchRight_index [of s]
    onKeyDown_cases [of P k s]
  by (simp add: previewGroupCount_def)

text \<open>
  The theorem at the group of the three keys 1, 2, 3 with the second one current: the
  left arrow leads to the first item, a second left arrow stays there.
\<close>

theorem navigation_keeps_index_witness:
  "distinct (previewUrlsKeys freshState) \<and> 0 \<le> currentPreviewIndex freshState \<and>
   currentPreviewIndex (onSwitchLeft freshState) = 0 \<and>
   currentPreviewIndex (onSwitchRight freshState) = 2 \<and>
   0 \<le> currentPreviewIndex
         (run [(defaultProps, exampleDom, KeyDown 37), (defaultProps, exampleDom, KeyDown 37)]
            freshState) \<and>
   onKeyDown defaultProps 37 freshState = onSwitchLeft freshState"
proof -
  have d: "distinct (previewUrlsKeys freshState)"
    by (simp add: freshState_def initialState_def previewUrlsKeys_def)
  have i: "currentPreviewIndex freshState = 1"
    by (simp add: freshState_def initialState_def previewUrlsKeys_def
        currentPreviewIndex_def)
  have n: "previewGroupCount freshState = 3"
    by (simp add: freshState_def initialState_def previewGroupCount_def)
  have g: "isPreviewGroup freshState \<and> visible defaultProps"
    by (simp add: freshState_def initialState_def defaultProps_def)
  have p: "0 \<le> currentPreviewIndex freshState"
    by (simp add: i)
  from navigation_keeps_index
    [OF d p, of "[(defaultProps, exampleDom, KeyDown 37), (defaultProps, exampleDom, KeyDown 37)]"
       defaultProps 37]
  show ?thesis
    using d i n g by (simp add: KeyCode_LEFT_def)
qed

end
